theory Spec2Isabelle
  imports Complex_Main
begin

section \<open>Python values and exceptions\<close>

text \<open>
  The zone snapshots handled by \<^verbatim>\<open>climate.py\<close> are decoded JSON documents typed
  \<^verbatim>\<open>dict[str, Any]\<close>. A dictionary is an association list read with \<open>map_of\<close>.
  Python floats are represented by reals: \<^verbatim>\<open>x / 10\<close> is the exact quotient, so
  rounding to a double and the overflow of huge integers are outside this model.
\<close>

datatype pyval =
    PNone
  | PBool bool
  | PInt int
  | PFloat real
  | PStr string
  | PList "pyval list"
  | PDict "(string \<times> pyval) list"

text \<open>
  Exceptions. \<open>KeyError\<close> and \<open>TypeError\<close> are what subscripting and division raise
  here; \<open>Exception\<close> stands for any other instance of Python's \<^verbatim>\<open>Exception\<close>
  (what the API client may raise), and \<open>BaseException\<close> for an exception that is
  not an \<^verbatim>\<open>Exception\<close> instance (a cancellation, an interpreter exit).
\<close>

datatype py_exc =
    KeyError pyval
  | TypeError
  | Exception string
  | BaseException string

text \<open>\<^verbatim>\<open>except Exception as ex\<close> handles exactly the exceptions accepted here.\<close>

fun is_Exception :: "py_exc \<Rightarrow> bool" where
  "is_Exception (BaseException _) = False"
| "is_Exception _ = True"

text \<open>
  \<^verbatim>\<open>d[k]\<close> with a string key: a dictionary without the key raises \<open>KeyError\<close>,
  every other value (None, a number, a string, a list) raises \<open>TypeError\<close>.
\<close>

fun getitem :: "pyval \<Rightarrow> string \<Rightarrow> py_exc + pyval" where
  "getitem (PDict kvs) k =
     (case map_of kvs k of None \<Rightarrow> Inl (KeyError (PStr k)) | Some v \<Rightarrow> Inr v)"
| "getitem _ k = Inl TypeError"

text \<open>
  \<^verbatim>\<open>v / 10\<close>: true division of a number (a bool counts as 0 or 1) gives a float;
  a string, a list, a dictionary or None raises \<open>TypeError\<close>.
\<close>

fun truediv10 :: "pyval \<Rightarrow> py_exc + pyval" where
  "truediv10 (PInt n) = Inr (PFloat (real_of_int n / 10))"
| "truediv10 (PFloat r) = Inr (PFloat (r / 10))"
| "truediv10 (PBool b) = Inr (PFloat ((if b then 1 else 0) / 10))"
| "truediv10 _ = Inl TypeError"

section \<open>The climate enumerations\<close>

text \<open>
  The members of Home Assistant's \<^verbatim>\<open>HVACAction\<close> and \<^verbatim>\<open>HVACMode\<close> that
  \<^verbatim>\<open>climate.py\<close> uses. Both are string enumerations; \<open>HVACMode_value\<close> is the
  string a member compares equal to.
\<close>

datatype HVACAction = HVACAction_HEATING | HVACAction_IDLE | HVACAction_OFF

datatype HVACMode = HVACMode_HEAT | HVACMode_OFF

fun HVACMode_value :: "HVACMode \<Rightarrow> string" where
  "HVACMode_value HVACMode_HEAT = ''heat''"
| "HVACMode_value HVACMode_OFF = ''off''"

definition ATTR_TEMPERATURE :: string where
  "ATTR_TEMPERATURE = ''temperature''"

section \<open>The thermostat adapter\<close>

text \<open>
  The fields of \<^verbatim>\<open>TechThermostat\<close>. \<open>attr_unique_id\<close> keeps the two parts of the
  f-string \<^verbatim>\<open>f"{udid}_{id}"\<close>; the device descriptor is determined by it and by the
  name stored in \<open>attr_device_info_name\<close>. The API handle is the same for every adapter
  and is passed to each operation instead of being stored.
\<close>

record TechThermostat =
  self_id :: pyval
  self_udid :: pyval
  attr_unique_id :: "pyval \<times> pyval"
  attr_device_info_name :: pyval
  attr_name :: pyval
  attr_target_temperature :: pyval
  attr_current_temperature :: pyval
  attr_current_humidity :: pyval
  attr_hvac_action :: "HVACAction option"
  attr_hvac_mode :: HVACMode

text \<open>
  A method that mutates \<^verbatim>\<open>self\<close> and may raise returns the exception (if any)
  together with the adapter as the statements executed so far have left it.
  \<open>then_do\<close> runs the next statement unless the previous one raised.
\<close>

definition then_do ::
  "py_exc option \<times> TechThermostat \<Rightarrow> (TechThermostat \<Rightarrow> py_exc option \<times> TechThermostat)
    \<Rightarrow> py_exc option \<times> TechThermostat" where
  "then_do r f = (case r of (Some e, self) \<Rightarrow> (Some e, self) | (None, self) \<Rightarrow> f self)"

text \<open>Line 82: \<^verbatim>\<open>self._attr_name = device["description"]["name"]\<close>.\<close>

definition assign_name :: "TechThermostat \<Rightarrow> pyval \<Rightarrow> py_exc option \<times> TechThermostat" where
  "assign_name self device =
     (case getitem device ''description'' of
        Inl e \<Rightarrow> (Some e, self)
      | Inr description \<Rightarrow>
          (case getitem description ''name'' of
             Inl e \<Rightarrow> (Some e, self)
           | Inr name \<Rightarrow> (None, self\<lparr>attr_name := name\<rparr>)))"

text \<open>Lines 85-86: the target temperature, tenths of a degree divided by 10.\<close>

definition assign_target_temperature ::
  "TechThermostat \<Rightarrow> pyval \<Rightarrow> py_exc option \<times> TechThermostat" where
  "assign_target_temperature self zone =
     (case getitem zone ''setTemperature'' of
        Inl e \<Rightarrow> (Some e, self)
      | Inr t \<Rightarrow>
          if t \<noteq> PNone then
            (case truediv10 t of
               Inl e \<Rightarrow> (Some e, self)
             | Inr v \<Rightarrow> (None, self\<lparr>attr_target_temperature := v\<rparr>))
          else (None, self))"

text \<open>Lines 88-89: the current temperature.\<close>

definition assign_current_temperature ::
  "TechThermostat \<Rightarrow> pyval \<Rightarrow> py_exc option \<times> TechThermostat" where
  "assign_current_temperature self zone =
     (case getitem zone ''currentTemperature'' of
        Inl e \<Rightarrow> (Some e, self)
      | Inr t \<Rightarrow>
          if t \<noteq> PNone then
            (case truediv10 t of
               Inl e \<Rightarrow> (Some e, self)
             | Inr v \<Rightarrow> (None, self\<lparr>attr_current_temperature := v\<rparr>))
          else (None, self))"

text \<open>Lines 91-92: the humidity, stored as it is.\<close>

definition assign_current_humidity ::
  "TechThermostat \<Rightarrow> pyval \<Rightarrow> py_exc option \<times> TechThermostat" where
  "assign_current_humidity self zone =
     (case getitem zone ''humidity'' of
        Inl e \<Rightarrow> (Some e, self)
      | Inr h \<Rightarrow>
          if h \<noteq> PNone then (None, self\<lparr>attr_current_humidity := h\<rparr>) else (None, self))"

text \<open>
  Lines 95-100: the action for a relay state. A value that is not a string compares
  unequal to both literals.
\<close>

definition action_of_state :: "pyval \<Rightarrow> HVACAction" where
  "action_of_state state =
     (if state = PStr ''on'' then HVACAction_HEATING
      else if state = PStr ''off'' then HVACAction_IDLE
      else HVACAction_OFF)"

text \<open>Lines 94-100.\<close>

definition assign_hvac_action :: "TechThermostat \<Rightarrow> pyval \<Rightarrow> py_exc option \<times> TechThermostat" where
  "assign_hvac_action self zone =
     (case getitem zone ''flags'' of
        Inl e \<Rightarrow> (Some e, self)
      | Inr flags \<Rightarrow>
          (case getitem flags ''relayState'' of
             Inl e \<Rightarrow> (Some e, self)
           | Inr state \<Rightarrow> (None, self\<lparr>attr_hvac_action := Some (action_of_state state)\<rparr>)))"

text \<open>Line 103: \<^verbatim>\<open>HVACMode.HEAT if mode in ["zoneOn", "noAlarm"] else HVACMode.OFF\<close>.\<close>

definition mode_of_state :: "pyval \<Rightarrow> HVACMode" where
  "mode_of_state mode =
     (if mode \<in> set [PStr ''zoneOn'', PStr ''noAlarm''] then HVACMode_HEAT else HVACMode_OFF)"

text \<open>Lines 102-103.\<close>

definition assign_hvac_mode :: "TechThermostat \<Rightarrow> pyval \<Rightarrow> py_exc option \<times> TechThermostat" where
  "assign_hvac_mode self zone =
     (case getitem zone ''zoneState'' of
        Inl e \<Rightarrow> (Some e, self)
      | Inr mode \<Rightarrow> (None, self\<lparr>attr_hvac_mode := mode_of_state mode\<rparr>))"

text \<open>\<^verbatim>\<open>TechThermostat.update_properties\<close>, lines 80-103, statement by statement.\<close>

definition update_properties :: "TechThermostat \<Rightarrow> pyval \<Rightarrow> py_exc option \<times> TechThermostat" where
  "update_properties self device =
     then_do (assign_name self device) (\<lambda>self.
       case getitem device ''zone'' of
         Inl e \<Rightarrow> (Some e, self)
       | Inr zone \<Rightarrow>
           then_do (assign_target_temperature self zone) (\<lambda>self.
           then_do (assign_current_temperature self zone) (\<lambda>self.
           then_do (assign_current_humidity self zone) (\<lambda>self.
           then_do (assign_hvac_action self zone) (\<lambda>self.
           assign_hvac_mode self zone)))))"

text \<open>
  \<^verbatim>\<open>TechThermostat.__init__\<close>, lines 56-78. An exception leaves no adapter behind.
\<close>

definition TechThermostat_init :: "pyval \<Rightarrow> pyval \<Rightarrow> py_exc + TechThermostat" where
  "TechThermostat_init device udid =
     (case getitem device ''zone'' of
        Inl e \<Rightarrow> Inl e
      | Inr zone \<Rightarrow>
     (case getitem zone ''id'' of
        Inl e \<Rightarrow> Inl e
      | Inr zid \<Rightarrow>
     (case getitem device ''description'' of
        Inl e \<Rightarrow> Inl e
      | Inr description \<Rightarrow>
     (case getitem description ''name'' of
        Inl e \<Rightarrow> Inl e
      | Inr name \<Rightarrow>
     (case update_properties
             \<lparr>self_id = zid, self_udid = udid, attr_unique_id = (udid, zid),
              attr_device_info_name = name, attr_name = PNone,
              attr_target_temperature = PNone, attr_current_temperature = PNone,
              attr_current_humidity = PNone, attr_hvac_action = None,
              attr_hvac_mode = HVACMode_OFF\<rparr> device of
        (Some e, _) \<Rightarrow> Inl e
      | (None, self) \<Rightarrow> Inr self)))))"

section \<open>The API client and the effects of an operation\<close>

text \<open>
  The vendor client \<^verbatim>\<open>Tech\<close> is a collaborator, given by what each of its four
  coroutines answers: a value, or the exception it raises. \<open>set_const_temp\<close> and
  \<open>set_zone\<close> return nothing the adapter reads, so only a raised exception is kept.
\<close>

record Tech =
  get_module_zones :: "pyval \<Rightarrow> py_exc + (pyval \<times> pyval) list"
  get_zone :: "pyval \<Rightarrow> pyval \<Rightarrow> py_exc + pyval"
  set_const_temp :: "pyval \<Rightarrow> pyval \<Rightarrow> pyval \<Rightarrow> py_exc option"
  set_zone :: "pyval \<Rightarrow> pyval \<Rightarrow> bool \<Rightarrow> py_exc option"

text \<open>The requests an operation sends to the client, with their arguments.\<close>

datatype api_call =
    Call_get_module_zones pyval
  | Call_get_zone pyval pyval
  | Call_set_const_temp pyval pyval pyval
  | Call_set_zone pyval pyval bool

text \<open>A call of \<^verbatim>\<open>_LOGGER.error\<close>: the format string and its arguments.\<close>

datatype log_arg = ArgVal pyval | ArgStr string | ArgExc py_exc

datatype log_entry = LogError string "log_arg list"

text \<open>
  What a caller of an adapter method observes: the exception that propagates (if any),
  the adapter afterwards, the requests sent and the log entries written.
\<close>

record op_result =
  raised :: "py_exc option"
  adapter :: TechThermostat
  api_calls :: "api_call list"
  logged :: "log_entry list"

text \<open>
  An exception \<open>ex\<close> reaching a \<^verbatim>\<open>try ... except Exception as ex: _LOGGER.error(...)\<close>
  block: an \<^verbatim>\<open>Exception\<close> is logged and swallowed, anything else propagates.
\<close>

definition except_Exception ::
  "py_exc \<Rightarrow> TechThermostat \<Rightarrow> api_call list \<Rightarrow> log_entry \<Rightarrow> op_result" where
  "except_Exception ex self cs entry =
     (if is_Exception ex
      then \<lparr>raised = None, adapter = self, api_calls = cs, logged = [entry]\<rparr>
      else \<lparr>raised = Some ex, adapter = self, api_calls = cs, logged = []\<rparr>)"

text \<open>\<^verbatim>\<open>TechThermostat.async_update\<close>, lines 105-111.\<close>

definition async_update :: "Tech \<Rightarrow> TechThermostat \<Rightarrow> op_result" where
  "async_update api self =
     (case get_zone api (self_udid self) (self_id self) of
        Inl ex \<Rightarrow>
          except_Exception ex self [Call_get_zone (self_udid self) (self_id self)]
            (LogError ''Failed to update Tech zone %s: %s'' [ArgVal (attr_name self), ArgExc ex])
      | Inr device \<Rightarrow>
          (case update_properties self device of
             (None, self') \<Rightarrow>
               \<lparr>raised = None, adapter = self',
                api_calls = [Call_get_zone (self_udid self) (self_id self)], logged = []\<rparr>
           | (Some ex, self') \<Rightarrow>
               except_Exception ex self' [Call_get_zone (self_udid self) (self_id self)]
                 (LogError ''Failed to update Tech zone %s: %s''
                    [ArgVal (attr_name self'), ArgExc ex])))"

text \<open>
  \<^verbatim>\<open>kwargs.get(ATTR_TEMPERATURE)\<close>: the keyword arguments are a dictionary, and
  \<^verbatim>\<open>get\<close> answers None for a missing key.
\<close>

definition kwargs_get :: "(string \<times> pyval) list \<Rightarrow> string \<Rightarrow> pyval" where
  "kwargs_get kwargs k = (case map_of kwargs k of None \<Rightarrow> PNone | Some v \<Rightarrow> v)"

text \<open>\<^verbatim>\<open>TechThermostat.async_set_temperature\<close>, lines 113-125.\<close>

definition async_set_temperature ::
  "Tech \<Rightarrow> TechThermostat \<Rightarrow> (string \<times> pyval) list \<Rightarrow> op_result" where
  "async_set_temperature api self kwargs =
     (let temperature = kwargs_get kwargs ATTR_TEMPERATURE in
      if temperature \<noteq> PNone then
        (case set_const_temp api (self_udid self) (self_id self) temperature of
           None \<Rightarrow>
             \<lparr>raised = None, adapter = self,
              api_calls = [Call_set_const_temp (self_udid self) (self_id self) temperature],
              logged = []\<rparr>
         | Some ex \<Rightarrow>
             except_Exception ex self
               [Call_set_const_temp (self_udid self) (self_id self) temperature]
               (LogError ''Failed to set temperature for %s to %s: %s''
                  [ArgVal (attr_name self), ArgVal temperature, ArgExc ex]))
      else \<lparr>raised = None, adapter = self, api_calls = [], logged = []\<rparr>)"

text \<open>\<^verbatim>\<open>TechThermostat.async_set_hvac_mode\<close>, lines 127-141.\<close>

definition async_set_hvac_mode :: "Tech \<Rightarrow> TechThermostat \<Rightarrow> string \<Rightarrow> op_result" where
  "async_set_hvac_mode api self hvac_mode =
     (case set_zone api (self_udid self) (self_id self)
             (hvac_mode = HVACMode_value HVACMode_HEAT) of
        None \<Rightarrow>
          \<lparr>raised = None, adapter = self,
           api_calls = [Call_set_zone (self_udid self) (self_id self)
                          (hvac_mode = HVACMode_value HVACMode_HEAT)],
           logged = []\<rparr>
      | Some ex \<Rightarrow>
          except_Exception ex self
            [Call_set_zone (self_udid self) (self_id self)
               (hvac_mode = HVACMode_value HVACMode_HEAT)]
            (LogError ''Failed to set hvac mode for %s to %s: %s''
               [ArgVal (attr_name self), ArgStr hvac_mode, ArgExc ex]))"

section \<open>The setup routine\<close>

text \<open>
  \<^verbatim>\<open>zones[zone]\<close> on the mapping answered by \<open>get_module_zones\<close>, and the keys that
  \<^verbatim>\<open>for zone in zones\<close> visits, in order.
\<close>

definition zones_getitem :: "(pyval \<times> pyval) list \<Rightarrow> pyval \<Rightarrow> py_exc + pyval" where
  "zones_getitem zones zone =
     (case map_of zones zone of None \<Rightarrow> Inl (KeyError zone) | Some device \<Rightarrow> Inr device)"

text \<open>
  A generator expression is lazy: each item is computed when the consumer asks for it,
  and a generator whose item raised is finished. So a consumer sees the items up to
  and including the first exception, and nothing after it.
\<close>

fun generator :: "(py_exc + 'a) list \<Rightarrow> (py_exc + 'a) list" where
  "generator [] = []"
| "generator (Inl e # rest) = [Inl e]"
| "generator (Inr x # rest) = Inr x # generator rest"

text \<open>
  Line 39-42: the generator handed to \<^verbatim>\<open>async_add_entities\<close>, one
  \<^verbatim>\<open>TechThermostat(zones[zone], api, udid)\<close> per key.
\<close>

definition entities_of :: "(pyval \<times> pyval) list \<Rightarrow> pyval \<Rightarrow> (py_exc + TechThermostat) list" where
  "entities_of zones udid =
     generator (map (\<lambda>zone. case zones_getitem zones zone of
                                Inl e \<Rightarrow> Inl e
                              | Inr device \<Rightarrow> TechThermostat_init device udid)
                    (map fst zones))"

text \<open>
  The host's registration callback, given by what it does with the generator: the
  exception that leaves it (if any) and the adapters it has registered by then.
\<close>

type_synonym AddEntitiesCallback =
  "(py_exc + TechThermostat) list \<Rightarrow> py_exc option \<times> TechThermostat list"

record setup_result =
  setup_raised :: "py_exc option"
  returned :: "bool option"
  offered :: "(py_exc + TechThermostat) list option"
  registered :: "TechThermostat list"
  setup_api_calls :: "api_call list"
  setup_logged :: "log_entry list"

text \<open>The handler of lines 44-46.\<close>

definition except_setup ::
  "py_exc \<Rightarrow> (py_exc + TechThermostat) list option \<Rightarrow> TechThermostat list
     \<Rightarrow> api_call list \<Rightarrow> setup_result" where
  "except_setup ex gen ents cs =
     (if is_Exception ex
      then \<lparr>setup_raised = None, returned = Some False, offered = gen, registered = ents,
            setup_api_calls = cs,
            setup_logged = [LogError ''Failed to set up Tech climate: %s'' [ArgExc ex]]\<rparr>
      else \<lparr>setup_raised = Some ex, returned = None, offered = gen, registered = ents,
            setup_api_calls = cs, setup_logged = []\<rparr>)"

text \<open>
  \<^verbatim>\<open>async_setup_entry\<close>, lines 28-46. \<open>hass_api\<close> is the outcome of line 34,
  \<^verbatim>\<open>hass.data[DOMAIN][entry.entry_id]\<close>, and \<open>entry_data\<close> is \<^verbatim>\<open>entry.data\<close>;
  both lookups stand before the \<^verbatim>\<open>try\<close>.
\<close>

definition async_setup_entry ::
  "py_exc + Tech \<Rightarrow> pyval \<Rightarrow> AddEntitiesCallback \<Rightarrow> setup_result" where
  "async_setup_entry hass_api entry_data async_add_entities =
     (case hass_api of
        Inl e \<Rightarrow>
          \<lparr>setup_raised = Some e, returned = None, offered = None, registered = [],
           setup_api_calls = [], setup_logged = []\<rparr>
      | Inr api \<Rightarrow>
     (case getitem entry_data ''module'' of
        Inl e \<Rightarrow>
          \<lparr>setup_raised = Some e, returned = None, offered = None, registered = [],
           setup_api_calls = [], setup_logged = []\<rparr>
      | Inr entry_module \<Rightarrow>
     (case getitem entry_module ''udid'' of
        Inl e \<Rightarrow>
          \<lparr>setup_raised = Some e, returned = None, offered = None, registered = [],
           setup_api_calls = [], setup_logged = []\<rparr>
      | Inr udid \<Rightarrow>
     (case get_module_zones api udid of
        Inl ex \<Rightarrow> except_setup ex None [] [Call_get_module_zones udid]
      | Inr zones \<Rightarrow>
          (case async_add_entities (entities_of zones udid) of
             (None, ents) \<Rightarrow>
               \<lparr>setup_raised = None, returned = Some True,
                offered = Some (entities_of zones udid), registered = ents,
                setup_api_calls = [Call_get_module_zones udid], setup_logged = []\<rparr>
           | (Some ex, ents) \<Rightarrow>
               except_setup ex (Some (entities_of zones udid)) ents
                 [Call_get_module_zones udid])))))"

section \<open>Reading a snapshot\<close>

text \<open>
  \<^verbatim>\<open>device["zone"][k]\<close> and \<^verbatim>\<open>device["zone"]["flags"]["relayState"]\<close> as
  \<open>update_properties\<close> evaluates them, and the test that such a source value is
  missing (the lookup raises) or null.
\<close>

definition zone_value :: "pyval \<Rightarrow> string \<Rightarrow> py_exc + pyval" where
  "zone_value device k =
     (case getitem device ''zone'' of Inl e \<Rightarrow> Inl e | Inr zone \<Rightarrow> getitem zone k)"


definition absent_or_null :: "py_exc + pyval \<Rightarrow> bool" where
  "absent_or_null r = (case r of Inl e \<Rightarrow> True | Inr v \<Rightarrow> v = PNone)"


definition present :: "py_exc + pyval \<Rightarrow> bool" where
  "present r = (case r of Inl e \<Rightarrow> False | Inr v \<Rightarrow> True)"





section \<open>Concrete inputs\<close>

text \<open>
  Two host callbacks. Both let an exception of the generator escape; \<open>register_all\<close>
  drains the generator before it registers anything, \<open>register_each\<close> registers every
  adapter as soon as the generator yields it.
\<close>

fun failures :: "(py_exc + 'a) list \<Rightarrow> py_exc list" where
  "failures [] = []"
| "failures (Inl e # rest) = e # failures rest"
| "failures (Inr x # rest) = failures rest"

fun successes :: "(py_exc + 'a) list \<Rightarrow> 'a list" where
  "successes [] = []"
| "successes (Inl e # rest) = successes rest"
| "successes (Inr x # rest) = x # successes rest"

definition register_all :: AddEntitiesCallback where
  "register_all gen =
     (case failures gen of [] \<Rightarrow> (None, successes gen) | e # _ \<Rightarrow> (Some e, []))"

definition register_each :: AddEntitiesCallback where
  "register_each gen =
     (case failures gen of [] \<Rightarrow> (None, successes gen) | e # _ \<Rightarrow> (Some e, successes gen))"

text \<open>
  The scenario snapshot of the specification for zone 7 named Salon, the adapter
  that \<^verbatim>\<open>TechThermostat(example_device, api, "m1")\<close> constructs, a configuration
  entry for module m1, and a client with fixed answers.
\<close>

definition example_device :: pyval where
  "example_device =
     PDict [(''description'', PDict [(''name'', PStr ''Salon'')]),
            (''zone'', PDict [(''id'', PInt 7),
                             (''setTemperature'', PInt 215),
                             (''currentTemperature'', PInt 198),
                             (''humidity'', PInt 45),
                             (''flags'', PDict [(''relayState'', PStr ''on'')]),
                             (''zoneState'', PStr ''zoneOn'')])]"

definition example_adapter :: TechThermostat where
  "example_adapter =
     \<lparr>self_id = PInt 7, self_udid = PStr ''m1'', attr_unique_id = (PStr ''m1'', PInt 7),
      attr_device_info_name = PStr ''Salon'', attr_name = PStr ''Salon'',
      attr_target_temperature = PFloat 21.5, attr_current_temperature = PFloat 19.8,
      attr_current_humidity = PInt 45, attr_hvac_action = Some HVACAction_HEATING,
      attr_hvac_mode = HVACMode_HEAT\<rparr>"

definition example_entry :: pyval where
  "example_entry = PDict [(''module'', PDict [(''udid'', PStr ''m1'')])]"

definition example_client ::
  "(py_exc + (pyval \<times> pyval) list) \<Rightarrow> (py_exc + pyval) \<Rightarrow> py_exc option \<Rightarrow> Tech" where
  "example_client zones zone answer =
     \<lparr>get_module_zones = (\<lambda>udid. zones), get_zone = (\<lambda>udid zid. zone),
      set_const_temp = (\<lambda>udid zid t. answer), set_zone = (\<lambda>udid zid on. answer)\<rparr>"


section \<open>Properties of the state derivation\<close>

lemmas step_defs = update_properties_def then_do_def assign_name_def
  assign_target_temperature_def assign_current_temperature_def
  assign_current_humidity_def assign_hvac_action_def assign_hvac_mode_def
  action_of_state_def mode_of_state_def

text \<open>A property of the adapter that every statement keeps is kept by the method.\<close>

lemma then_do_keeps:
  assumes "P (snd r)" and "\<And>s. P s \<Longrightarrow> P (snd (f s))"
  shows "P (snd (then_do r f))"
  using assms by (cases r) (auto simp: then_do_def split: option.splits)

lemma update_properties_keeps:
  assumes init: "P self"
    and n: "\<And>s. P s \<Longrightarrow> P (snd (assign_name s device))"
    and t: "\<And>s zone. getitem device ''zone'' = Inr zone \<Longrightarrow> P s
              \<Longrightarrow> P (snd (assign_target_temperature s zone))"
    and c: "\<And>s zone. getitem device ''zone'' = Inr zone \<Longrightarrow> P s
              \<Longrightarrow> P (snd (assign_current_temperature s zone))"
    and h: "\<And>s zone. getitem device ''zone'' = Inr zone \<Longrightarrow> P s
              \<Longrightarrow> P (snd (assign_current_humidity s zone))"
    and a: "\<And>s zone. getitem device ''zone'' = Inr zone \<Longrightarrow> P s
              \<Longrightarrow> P (snd (assign_hvac_action s zone))"
    and m: "\<And>s zone. getitem device ''zone'' = Inr zone \<Longrightarrow> P s
              \<Longrightarrow> P (snd (assign_hvac_mode s zone))"
  shows "P (snd (update_properties self device))"
  unfolding update_properties_def
proof (rule then_do_keeps[where P=P])
  show "P (snd (assign_name self device))" using init n by blast
next
  fix s assume s: "P s"
  show "P (snd (case getitem device ''zone'' of Inl e \<Rightarrow> (Some e, s)
         | Inr zone \<Rightarrow>
             then_do (assign_target_temperature s zone)
              (\<lambda>self. then_do (assign_current_temperature self zone)
                (\<lambda>self. then_do (assign_current_humidity self zone)
                  (\<lambda>self. then_do (assign_hvac_action self zone)
                    (\<lambda>self. assign_hvac_mode self zone))))))"
  proof (cases "getitem device ''zone''")
    case (Inl e)
    then show ?thesis using s by simp
  next
    case (Inr zone)
    have "P (snd (then_do (assign_target_temperature s zone)
              (\<lambda>self. then_do (assign_current_temperature self zone)
                (\<lambda>self. then_do (assign_current_humidity self zone)
                  (\<lambda>self. then_do (assign_hvac_action self zone)
                    (\<lambda>self. assign_hvac_mode self zone))))))"
      by (intro then_do_keeps[where P=P] t[OF Inr] c[OF Inr] h[OF Inr] a[OF Inr] m[OF Inr] s)
    then show ?thesis using Inr by simp
  qed
qed

text \<open>Each statement writes one field only.\<close>

lemma name_frame:
  "attr_target_temperature (snd (assign_name s d)) = attr_target_temperature s"
  "attr_current_temperature (snd (assign_name s d)) = attr_current_temperature s"
  "attr_current_humidity (snd (assign_name s d)) = attr_current_humidity s"
  "attr_hvac_action (snd (assign_name s d)) = attr_hvac_action s"
  "attr_hvac_mode (snd (assign_name s d)) = attr_hvac_mode s"
  by (simp_all add: assign_name_def split: sum.splits)

lemma target_frame:
  "attr_name (snd (assign_target_temperature s z)) = attr_name s"
  "attr_current_temperature (snd (assign_target_temperature s z)) = attr_current_temperature s"
  "attr_current_humidity (snd (assign_target_temperature s z)) = attr_current_humidity s"
  "attr_hvac_action (snd (assign_target_temperature s z)) = attr_hvac_action s"
  "attr_hvac_mode (snd (assign_target_temperature s z)) = attr_hvac_mode s"
  by (simp_all add: assign_target_temperature_def split: sum.splits)

lemma current_frame:
  "attr_name (snd (assign_current_temperature s z)) = attr_name s"
  "attr_target_temperature (snd (assign_current_temperature s z)) = attr_target_temperature s"
  "attr_current_humidity (snd (assign_current_temperature s z)) = attr_current_humidity s"
  "attr_hvac_action (snd (assign_current_temperature s z)) = attr_hvac_action s"
  "attr_hvac_mode (snd (assign_current_temperature s z)) = attr_hvac_mode s"
  by (simp_all add: assign_current_temperature_def split: sum.splits)

lemma humidity_frame:
  "attr_name (snd (assign_current_humidity s z)) = attr_name s"
  "attr_target_temperature (snd (assign_current_humidity s z)) = attr_target_temperature s"
  "attr_current_temperature (snd (assign_current_humidity s z)) = attr_current_temperature s"
  "attr_hvac_action (snd (assign_current_humidity s z)) = attr_hvac_action s"
  "attr_hvac_mode (snd (assign_current_humidity s z)) = attr_hvac_mode s"
  by (simp_all add: assign_current_humidity_def split: sum.splits)

lemma action_frame:
  "attr_name (snd (assign_hvac_action s z)) = attr_name s"
  "attr_target_temperature (snd (assign_hvac_action s z)) = attr_target_temperature s"
  "attr_current_temperature (snd (assign_hvac_action s z)) = attr_current_temperature s"
  "attr_current_humidity (snd (assign_hvac_action s z)) = attr_current_humidity s"
  "attr_hvac_mode (snd (assign_hvac_action s z)) = attr_hvac_mode s"
  by (simp_all add: assign_hvac_action_def split: sum.splits)

lemma mode_frame:
  "attr_name (snd (assign_hvac_mode s z)) = attr_name s"
  "attr_target_temperature (snd (assign_hvac_mode s z)) = attr_target_temperature s"
  "attr_current_temperature (snd (assign_hvac_mode s z)) = attr_current_temperature s"
  "attr_current_humidity (snd (assign_hvac_mode s z)) = attr_current_humidity s"
  "attr_hvac_action (snd (assign_hvac_mode s z)) = attr_hvac_action s"
  by (simp_all add: assign_hvac_mode_def split: sum.splits)

lemmas frames = name_frame target_frame current_frame humidity_frame action_frame mode_frame

text \<open>A missing or null source value makes its statement write nothing.\<close>

lemma absent_target:
  "absent_or_null (getitem z ''setTemperature'') \<Longrightarrow> snd (assign_target_temperature s z) = s"
  by (auto simp: assign_target_temperature_def absent_or_null_def split: sum.splits)

lemma absent_current:
  "absent_or_null (getitem z ''currentTemperature'') \<Longrightarrow> snd (assign_current_temperature s z) = s"
  by (auto simp: assign_current_temperature_def absent_or_null_def split: sum.splits)

lemma absent_humidity:
  "absent_or_null (getitem z ''humidity'') \<Longrightarrow> snd (assign_current_humidity s z) = s"
  by (auto simp: assign_current_humidity_def absent_or_null_def split: sum.splits)

lemma zone_value_Inr:
  "getitem device ''zone'' = Inr zone \<Longrightarrow> zone_value device k = getitem zone k"
  by (simp add: zone_value_def)

lemma keeps_target:
  "absent_or_null (zone_value device ''setTemperature'') \<Longrightarrow>
   attr_target_temperature (snd (update_properties self device)) = attr_target_temperature self"
  by (rule update_properties_keeps
        [where P="\<lambda>s. attr_target_temperature s = attr_target_temperature self"])
     (simp_all add: frames absent_target zone_value_Inr)

lemma keeps_current:
  "absent_or_null (zone_value device ''currentTemperature'') \<Longrightarrow>
   attr_current_temperature (snd (update_properties self device)) = attr_current_temperature self"
  by (rule update_properties_keeps
        [where P="\<lambda>s. attr_current_temperature s = attr_current_temperature self"])
     (simp_all add: frames absent_current zone_value_Inr)

lemma keeps_humidity:
  "absent_or_null (zone_value device ''humidity'') \<Longrightarrow>
   attr_current_humidity (snd (update_properties self device)) = attr_current_humidity self"
  by (rule update_properties_keeps
        [where P="\<lambda>s. attr_current_humidity s = attr_current_humidity self"])
     (simp_all add: frames absent_humidity zone_value_Inr)

















lemma present_cases: "present r = (case r of Inl e \<Rightarrow> False | Inr v \<Rightarrow> True)"
  by (simp add: present_def)






text \<open>The example adapter is the one the constructor builds from the example snapshot.\<close>

lemma init_example: "TechThermostat_init example_device (PStr ''m1'') = Inr example_adapter"
  by (simp add: TechThermostat_init_def example_device_def example_adapter_def step_defs)

lemma init_empty: "TechThermostat_init (PDict []) udid = Inl (KeyError (PStr ''zone''))"
  by (simp add: TechThermostat_init_def)

section \<open>The setup routine hands one adapter per zone to the host\<close>

lemma generator_all_Inr:
  "\<forall>x\<in>set xs. \<exists>a. x = Inr a \<Longrightarrow> generator xs = xs"
proof (induction xs)
  case Nil
  then show ?case by simp
next
  case (Cons x xs)
  then obtain a where "x = Inr a" by auto
  with Cons show ?case by simp
qed

lemma entities_of_wellformed:
  assumes d: "distinct (map fst zones)"
    and w: "\<forall>z\<in>set zones. \<exists>a. TechThermostat_init (snd z) udid = Inr a"
  shows "entities_of zones udid = map (\<lambda>z. TechThermostat_init (snd z) udid) zones"
proof -
  have look: "zones_getitem zones (fst z) = Inr (snd z)" if "z \<in> set zones" for z
  proof -
    from that have "(fst z, snd z) \<in> set zones" by simp
    with d have "map_of zones (fst z) = Some (snd z)" by (rule map_of_is_SomeI)
    then show ?thesis by (simp add: zones_getitem_def)
  qed
  have m: "map (\<lambda>zone. case zones_getitem zones zone of
                        Inl e \<Rightarrow> Inl e
                      | Inr device \<Rightarrow> TechThermostat_init device udid) (map fst zones)
           = map (\<lambda>z. TechThermostat_init (snd z) udid) zones"
    by (simp add: look)
  have "generator (map (\<lambda>z. TechThermostat_init (snd z) udid) zones)
        = map (\<lambda>z. TechThermostat_init (snd z) udid) zones"
    using w by (intro generator_all_Inr) auto
  then show ?thesis unfolding entities_of_def m .
qed

section \<open>The claims\<close>

text \<open>\<^bold>\<open>C1\<close>. For every adapter state and every client, when \<open>get_zone\<close> raises an
  error (an instance of \<^verbatim>\<open>Exception\<close>), \<open>async_update\<close> lets no exception
  propagate, writes one log entry and leaves the adapter as it was: the name and the
  five derived fields, like every other field, keep their values.\<close>

theorem async_update_fetch_error:
  assumes "get_zone api (self_udid self) (self_id self) = Inl ex" and "is_Exception ex"
  shows "raised (async_update api self) = None
       \<and> adapter (async_update api self) = self
       \<and> attr_name (adapter (async_update api self)) = attr_name self
       \<and> attr_target_temperature (adapter (async_update api self)) = attr_target_temperature self
       \<and> attr_current_temperature (adapter (async_update api self)) = attr_current_temperature self
       \<and> attr_current_humidity (adapter (async_update api self)) = attr_current_humidity self
       \<and> attr_hvac_action (adapter (async_update api self)) = attr_hvac_action self
       \<and> attr_hvac_mode (adapter (async_update api self)) = attr_hvac_mode self
       \<and> logged (async_update api self) =
           [LogError ''Failed to update Tech zone %s: %s'' [ArgVal (attr_name self), ArgExc ex]]"
  using assms by (simp add: async_update_def except_Exception_def)

theorem async_update_fetch_error_witness:
  "get_zone (example_client (Inr []) (Inl (Exception ''timeout'')) None)
      (self_udid example_adapter) (self_id example_adapter) = Inl (Exception ''timeout'')
   \<and> is_Exception (Exception ''timeout'')
   \<and> raised (async_update (example_client (Inr []) (Inl (Exception ''timeout'')) None)
               example_adapter) = None
   \<and> adapter (async_update (example_client (Inr []) (Inl (Exception ''timeout'')) None)
               example_adapter) = example_adapter"
proof -
  have g: "get_zone (example_client (Inr []) (Inl (Exception ''timeout'')) None)
      (self_udid example_adapter) (self_id example_adapter) = Inl (Exception ''timeout'')"
    by (simp add: example_client_def)
  have e: "is_Exception (Exception ''timeout'')" by simp
  from async_update_fetch_error[OF g e] g e show ?thesis by simp
qed

text \<open>\<^bold>\<open>C2\<close>. For every snapshot and every adapter state: when the set-point
  temperature is absent or null, \<open>update_properties\<close> leaves the target temperature at
  its previous value; the same holds for the current temperature and for the humidity
  when their source values are absent or null.\<close>

theorem update_properties_null_keeps_value:
  "(absent_or_null (zone_value device ''setTemperature'') \<longrightarrow>
      attr_target_temperature (snd (update_properties self device))
        = attr_target_temperature self)
 \<and> (absent_or_null (zone_value device ''currentTemperature'') \<longrightarrow>
      attr_current_temperature (snd (update_properties self device))
        = attr_current_temperature self)
 \<and> (absent_or_null (zone_value device ''humidity'') \<longrightarrow>
      attr_current_humidity (snd (update_properties self device))
        = attr_current_humidity self)"
  using keeps_target keeps_current keeps_humidity by blast

theorem update_properties_null_keeps_value_witness:
  "absent_or_null (zone_value
      (PDict [(''description'', PDict [(''name'', PStr ''Salon'')]),
              (''zone'', PDict [(''setTemperature'', PNone), (''currentTemperature'', PNone),
                               (''flags'', PDict [(''relayState'', PStr ''off'')]),
                               (''zoneState'', PStr ''zoneOn'')])]) ''setTemperature'')
 \<and> absent_or_null (zone_value
      (PDict [(''description'', PDict [(''name'', PStr ''Salon'')]),
              (''zone'', PDict [(''setTemperature'', PNone), (''currentTemperature'', PNone),
                               (''flags'', PDict [(''relayState'', PStr ''off'')]),
                               (''zoneState'', PStr ''zoneOn'')])]) ''currentTemperature'')
 \<and> absent_or_null (zone_value
      (PDict [(''description'', PDict [(''name'', PStr ''Salon'')]),
              (''zone'', PDict [(''setTemperature'', PNone), (''currentTemperature'', PNone),
                               (''flags'', PDict [(''relayState'', PStr ''off'')]),
                               (''zoneState'', PStr ''zoneOn'')])]) ''humidity'')
 \<and> attr_target_temperature (snd (update_properties example_adapter
      (PDict [(''description'', PDict [(''name'', PStr ''Salon'')]),
              (''zone'', PDict [(''setTemperature'', PNone), (''currentTemperature'', PNone),
                               (''flags'', PDict [(''relayState'', PStr ''off'')]),
                               (''zoneState'', PStr ''zoneOn'')])]))) = PFloat 21.5
 \<and> attr_current_temperature (snd (update_properties example_adapter
      (PDict [(''description'', PDict [(''name'', PStr ''Salon'')]),
              (''zone'', PDict [(''setTemperature'', PNone), (''currentTemperature'', PNone),
                               (''flags'', PDict [(''relayState'', PStr ''off'')]),
                               (''zoneState'', PStr ''zoneOn'')])]))) = PFloat 19.8
 \<and> attr_current_humidity (snd (update_properties example_adapter
      (PDict [(''description'', PDict [(''name'', PStr ''Salon'')]),
              (''zone'', PDict [(''setTemperature'', PNone), (''currentTemperature'', PNone),
                               (''flags'', PDict [(''relayState'', PStr ''off'')]),
                               (''zoneState'', PStr ''zoneOn'')])]))) = PInt 45"
proof -
  let ?d = "PDict [(''description'', PDict [(''name'', PStr ''Salon'')]),
              (''zone'', PDict [(''setTemperature'', PNone), (''currentTemperature'', PNone),
                               (''flags'', PDict [(''relayState'', PStr ''off'')]),
                               (''zoneState'', PStr ''zoneOn'')])]"
  have a: "absent_or_null (zone_value ?d ''setTemperature'')"
    "absent_or_null (zone_value ?d ''currentTemperature'')"
    "absent_or_null (zone_value ?d ''humidity'')"
    by (simp_all add: absent_or_null_def zone_value_def)
  have v: "attr_target_temperature example_adapter = PFloat 21.5"
    "attr_current_temperature example_adapter = PFloat 19.8"
    "attr_current_humidity example_adapter = PInt 45"
    by (simp_all add: example_adapter_def)
  from update_properties_null_keeps_value[of ?d example_adapter] a v show ?thesis
    by simp
qed







text \<open>\<^bold>\<open>C5\<close>. The snapshot with setTemperature 215, currentTemperature 198, humidity 45,
  relay state "on" and zone state "zoneOn" is derived, for any display name and any
  adapter state, without an exception into target temperature 21.5, current
  temperature 19.8, humidity 45, action heating and mode heat.\<close>

theorem update_properties_scenario:
  "update_properties self
     (PDict [(''description'', PDict [(''name'', name)]),
             (''zone'', PDict [(''setTemperature'', PInt 215),
                              (''currentTemperature'', PInt 198),
                              (''humidity'', PInt 45),
                              (''flags'', PDict [(''relayState'', PStr ''on'')]),
                              (''zoneState'', PStr ''zoneOn'')])])
   = (None, self\<lparr>attr_name := name,
                  attr_target_temperature := PFloat 21.5,
                  attr_current_temperature := PFloat 19.8,
                  attr_current_humidity := PInt 45,
                  attr_hvac_action := Some HVACAction_HEATING,
                  attr_hvac_mode := HVACMode_HEAT\<rparr>)"
  by (simp add: step_defs)

text \<open>\<^bold>\<open>C6\<close>, as amended. With the module identifier read from the configuration entry:
  when \<open>get_module_zones\<close> raises an error, the setup routine logs it, never calls the
  registration callback (no adapter is constructed or registered), returns False and
  does not raise. When the fetch answers a mapping, the callback is handed the lazy
  sequence of adapters for its zones; the routine returns True when the callback
  returns normally, and logs and returns False without raising when an error leaves
  the callback (for instance from constructing an adapter while the callback
  iterates). What is registered is what the callback has registered by then. When
  every snapshot of the mapping is well formed, the sequence holds exactly one
  adapter per zone, in the order of the mapping.\<close>

theorem async_setup_entry_outcomes:
  assumes "getitem entry_data ''module'' = Inr entry_module"
    and "getitem entry_module ''udid'' = Inr udid"
  shows
   "(\<forall>ex. get_module_zones api udid = Inl ex \<and> is_Exception ex \<longrightarrow>
       async_setup_entry (Inr api) entry_data async_add_entities =
         \<lparr>setup_raised = None, returned = Some False, offered = None, registered = [],
          setup_api_calls = [Call_get_module_zones udid],
          setup_logged = [LogError ''Failed to set up Tech climate: %s'' [ArgExc ex]]\<rparr>)
  \<and> (\<forall>zones. get_module_zones api udid = Inr zones \<longrightarrow>
       offered (async_setup_entry (Inr api) entry_data async_add_entities)
         = Some (entities_of zones udid)
     \<and> registered (async_setup_entry (Inr api) entry_data async_add_entities)
         = snd (async_add_entities (entities_of zones udid))
     \<and> (fst (async_add_entities (entities_of zones udid)) = None \<longrightarrow>
          setup_raised (async_setup_entry (Inr api) entry_data async_add_entities) = None
        \<and> returned (async_setup_entry (Inr api) entry_data async_add_entities) = Some True
        \<and> setup_logged (async_setup_entry (Inr api) entry_data async_add_entities) = [])
     \<and> (\<forall>ex. fst (async_add_entities (entities_of zones udid)) = Some ex \<and> is_Exception ex \<longrightarrow>
          setup_raised (async_setup_entry (Inr api) entry_data async_add_entities) = None
        \<and> returned (async_setup_entry (Inr api) entry_data async_add_entities) = Some False
        \<and> setup_logged (async_setup_entry (Inr api) entry_data async_add_entities)
             = [LogError ''Failed to set up Tech climate: %s'' [ArgExc ex]])
     \<and> (distinct (map fst zones)
          \<and> (\<forall>z\<in>set zones. \<exists>a. TechThermostat_init (snd z) udid = Inr a) \<longrightarrow>
          entities_of zones udid = map (\<lambda>z. TechThermostat_init (snd z) udid) zones))"
proof (intro conjI allI impI)
  fix ex assume "get_module_zones api udid = Inl ex \<and> is_Exception ex"
  then show "async_setup_entry (Inr api) entry_data async_add_entities =
         \<lparr>setup_raised = None, returned = Some False, offered = None, registered = [],
          setup_api_calls = [Call_get_module_zones udid],
          setup_logged = [LogError ''Failed to set up Tech climate: %s'' [ArgExc ex]]\<rparr>"
    using assms by (simp add: async_setup_entry_def except_setup_def)
next
  fix zones assume z: "get_module_zones api udid = Inr zones"
  obtain r ents where c: "async_add_entities (entities_of zones udid) = (r, ents)"
    by (cases "async_add_entities (entities_of zones udid)")
  show "offered (async_setup_entry (Inr api) entry_data async_add_entities)
         = Some (entities_of zones udid)"
    using assms z c
    by (cases r) (simp_all add: async_setup_entry_def except_setup_def)
  show "registered (async_setup_entry (Inr api) entry_data async_add_entities)
         = snd (async_add_entities (entities_of zones udid))"
    using assms z c
    by (cases r) (simp_all add: async_setup_entry_def except_setup_def)
  {
    assume "fst (async_add_entities (entities_of zones udid)) = None"
    then have n: "r = None" using c by simp
    show "setup_raised (async_setup_entry (Inr api) entry_data async_add_entities) = None"
      using assms z c n by (simp add: async_setup_entry_def)
    show "returned (async_setup_entry (Inr api) entry_data async_add_entities) = Some True"
      using assms z c n by (simp add: async_setup_entry_def)
    show "setup_logged (async_setup_entry (Inr api) entry_data async_add_entities) = []"
      using assms z c n by (simp add: async_setup_entry_def)
  }
  {
    fix ex assume "fst (async_add_entities (entities_of zones udid)) = Some ex \<and> is_Exception ex"
    then have n: "r = Some ex" "is_Exception ex" using c by simp_all
    show "setup_raised (async_setup_entry (Inr api) entry_data async_add_entities) = None"
      using assms z c n by (simp add: async_setup_entry_def except_setup_def)
    show "returned (async_setup_entry (Inr api) entry_data async_add_entities) = Some False"
      using assms z c n by (simp add: async_setup_entry_def except_setup_def)
    show "setup_logged (async_setup_entry (Inr api) entry_data async_add_entities)
             = [LogError ''Failed to set up Tech climate: %s'' [ArgExc ex]]"
      using assms z c n by (simp add: async_setup_entry_def except_setup_def)
  }
  {
    assume "distinct (map fst zones)
          \<and> (\<forall>z\<in>set zones. \<exists>a. TechThermostat_init (snd z) udid = Inr a)"
    then show "entities_of zones udid = map (\<lambda>z. TechThermostat_init (snd z) udid) zones"
      using entities_of_wellformed by simp
  }
qed

theorem async_setup_entry_outcomes_witness:
  "getitem example_entry ''module'' = Inr (PDict [(''udid'', PStr ''m1'')])
 \<and> getitem (PDict [(''udid'', PStr ''m1'')]) ''udid'' = Inr (PStr ''m1'')
 \<and> get_module_zones (example_client (Inl (Exception ''offline'')) (Inl TypeError) None)
      (PStr ''m1'') = Inl (Exception ''offline'')
 \<and> is_Exception (Exception ''offline'')
 \<and> async_setup_entry (Inr (example_client (Inl (Exception ''offline'')) (Inl TypeError) None))
      example_entry register_all =
      \<lparr>setup_raised = None, returned = Some False, offered = None, registered = [],
       setup_api_calls = [Call_get_module_zones (PStr ''m1'')],
       setup_logged = [LogError ''Failed to set up Tech climate: %s''
                         [ArgExc (Exception ''offline'')]]\<rparr>
 \<and> get_module_zones (example_client (Inr [(PInt 7, example_device)]) (Inl TypeError) None)
      (PStr ''m1'') = Inr [(PInt 7, example_device)]
 \<and> distinct (map fst [(PInt 7, example_device)])
 \<and> entities_of [(PInt 7, example_device)] (PStr ''m1'') = [Inr example_adapter]
 \<and> fst (register_all (entities_of [(PInt 7, example_device)] (PStr ''m1''))) = None
 \<and> returned (async_setup_entry
      (Inr (example_client (Inr [(PInt 7, example_device)]) (Inl TypeError) None))
      example_entry register_all) = Some True
 \<and> registered (async_setup_entry
      (Inr (example_client (Inr [(PInt 7, example_device)]) (Inl TypeError) None))
      example_entry register_all) = [example_adapter]"
proof -
  let ?bad = "example_client (Inl (Exception ''offline'')) (Inl TypeError) None"
  let ?good = "example_client (Inr [(PInt 7, example_device)]) (Inl TypeError) None"
  have m: "getitem example_entry ''module'' = Inr (PDict [(''udid'', PStr ''m1'')])"
    by (simp add: example_entry_def)
  have u: "getitem (PDict [(''udid'', PStr ''m1'')]) ''udid'' = Inr (PStr ''m1'')"
    by simp
  have b: "get_module_zones ?bad (PStr ''m1'') = Inl (Exception ''offline'')"
    by (simp add: example_client_def)
  have g: "get_module_zones ?good (PStr ''m1'') = Inr [(PInt 7, example_device)]"
    by (simp add: example_client_def)
  have e: "is_Exception (Exception ''offline'')" by simp
  have d: "distinct (map fst [(PInt 7, example_device)])" by simp
  have w: "\<forall>z\<in>set [(PInt 7, example_device)].
             \<exists>a. TechThermostat_init (snd z) (PStr ''m1'') = Inr a"
    by (simp add: init_example)
  note bad = async_setup_entry_outcomes[OF m u, of ?bad register_all]
  note good = async_setup_entry_outcomes[OF m u, of ?good register_all]
  from bad b e have 1: "async_setup_entry (Inr ?bad) example_entry register_all =
      \<lparr>setup_raised = None, returned = Some False, offered = None, registered = [],
       setup_api_calls = [Call_get_module_zones (PStr ''m1'')],
       setup_logged = [LogError ''Failed to set up Tech climate: %s''
                         [ArgExc (Exception ''offline'')]]\<rparr>"
    by simp
  from good g d w
  have 2: "entities_of [(PInt 7, example_device)] (PStr ''m1'') = [Inr example_adapter]"
    by (simp add: init_example)
  have 3: "register_all [Inr example_adapter] = (None, [example_adapter])"
    by (simp add: register_all_def)
  from good g 2 3
  have 4: "returned (async_setup_entry (Inr ?good) example_entry register_all) = Some True"
    "registered (async_setup_entry (Inr ?good) example_entry register_all) = [example_adapter]"
    by simp_all
  from m u b e 1 g d 2 3 4 show ?thesis by simp
qed

text \<open>The claim as it was stated fails in two ways. A fetch that succeeds with a
  malformed snapshot for its only zone yields no adapter and the answer False, even
  with a callback that registers all or nothing. And with a callback that registers
  each adapter as the generator yields it, a malformed second snapshot makes the
  routine answer False after the first zone's adapter has been registered.\<close>

theorem async_setup_entry_partial_counterexample:
  "get_module_zones (example_client (Inr [(PInt 8, PDict [])]) (Inl TypeError) None)
      (PStr ''m1'') = Inr [(PInt 8, PDict [])]
 \<and> returned (async_setup_entry
      (Inr (example_client (Inr [(PInt 8, PDict [])]) (Inl TypeError) None))
      example_entry register_all) = Some False
 \<and> registered (async_setup_entry
      (Inr (example_client (Inr [(PInt 8, PDict [])]) (Inl TypeError) None))
      example_entry register_all) = []
 \<and> returned (async_setup_entry
      (Inr (example_client (Inr [(PInt 7, example_device), (PInt 8, PDict [])])
             (Inl TypeError) None))
      example_entry register_each) = Some False
 \<and> setup_raised (async_setup_entry
      (Inr (example_client (Inr [(PInt 7, example_device), (PInt 8, PDict [])])
             (Inl TypeError) None))
      example_entry register_each) = None
 \<and> registered (async_setup_entry
      (Inr (example_client (Inr [(PInt 7, example_device), (PInt 8, PDict [])])
             (Inl TypeError) None))
      example_entry register_each) = [example_adapter]"
proof -
  have e1: "entities_of [(PInt 8, PDict [])] (PStr ''m1'') = [Inl (KeyError (PStr ''zone''))]"
    by (simp add: entities_of_def zones_getitem_def init_empty)
  have e2: "entities_of [(PInt 7, example_device), (PInt 8, PDict [])] (PStr ''m1'')
              = [Inr example_adapter, Inl (KeyError (PStr ''zone''))]"
    by (simp add: entities_of_def zones_getitem_def init_empty init_example)
  show ?thesis
    by (simp add: async_setup_entry_def example_entry_def example_client_def e1 e2
        register_all_def register_each_def except_setup_def)
qed

text \<open>\<^bold>\<open>C7\<close>. For every requested mode string, every adapter state and every client,
  \<open>async_set_hvac_mode\<close> sends exactly one \<open>set_zone\<close> request for its module and zone
  whose flag is true exactly when the requested mode is "heat"; it never changes the
  adapter; when the call succeeds nothing is logged or raised, and when the call raises
  an error the error is logged and does not propagate.\<close>

theorem async_set_hvac_mode_flag:
  "api_calls (async_set_hvac_mode api self hvac_mode) =
     [Call_set_zone (self_udid self) (self_id self) (hvac_mode = ''heat'')]
   \<and> adapter (async_set_hvac_mode api self hvac_mode) = self
   \<and> (set_zone api (self_udid self) (self_id self) (hvac_mode = ''heat'') = None \<longrightarrow>
        raised (async_set_hvac_mode api self hvac_mode) = None \<and>
        logged (async_set_hvac_mode api self hvac_mode) = [])
   \<and> (\<forall>ex. set_zone api (self_udid self) (self_id self) (hvac_mode = ''heat'') = Some ex \<and>
          is_Exception ex \<longrightarrow>
        raised (async_set_hvac_mode api self hvac_mode) = None \<and>
        logged (async_set_hvac_mode api self hvac_mode) =
          [LogError ''Failed to set hvac mode for %s to %s: %s''
             [ArgVal (attr_name self), ArgStr hvac_mode, ArgExc ex]])"
  by (cases "set_zone api (self_udid self) (self_id self) (hvac_mode = ''heat'')")
     (simp_all add: async_set_hvac_mode_def except_Exception_def)

theorem async_set_hvac_mode_flag_witness:
  "api_calls (async_set_hvac_mode (example_client (Inr []) (Inl TypeError) None)
                example_adapter ''off'')
     = [Call_set_zone (PStr ''m1'') (PInt 7) False]
 \<and> attr_hvac_mode example_adapter = HVACMode_HEAT
 \<and> api_calls (async_set_hvac_mode (example_client (Inr []) (Inl TypeError) None)
                example_adapter ''heat'')
     = [Call_set_zone (PStr ''m1'') (PInt 7) True]
 \<and> api_calls (async_set_hvac_mode (example_client (Inr []) (Inl TypeError) None)
                example_adapter ''auto'')
     = [Call_set_zone (PStr ''m1'') (PInt 7) False]
 \<and> raised (async_set_hvac_mode (example_client (Inr []) (Inl TypeError) None)
                example_adapter ''off'') = None
 \<and> set_zone (example_client (Inr []) (Inl TypeError) (Some (Exception ''offline'')))
      (self_udid example_adapter) (self_id example_adapter) (''off'' = ''heat'')
     = Some (Exception ''offline'')
 \<and> is_Exception (Exception ''offline'')
 \<and> raised (async_set_hvac_mode
      (example_client (Inr []) (Inl TypeError) (Some (Exception ''offline'')))
      example_adapter ''off'') = None
 \<and> adapter (async_set_hvac_mode
      (example_client (Inr []) (Inl TypeError) (Some (Exception ''offline'')))
      example_adapter ''off'') = example_adapter
 \<and> logged (async_set_hvac_mode
      (example_client (Inr []) (Inl TypeError) (Some (Exception ''offline'')))
      example_adapter ''off'')
     = [LogError ''Failed to set hvac mode for %s to %s: %s''
          [ArgVal (PStr ''Salon''), ArgStr ''off'', ArgExc (Exception ''offline'')]]"
proof -
  let ?ok = "example_client (Inr []) (Inl TypeError) None"
  let ?bad = "example_client (Inr []) (Inl TypeError) (Some (Exception ''offline''))"
  have s: "self_udid example_adapter = PStr ''m1''" "self_id example_adapter = PInt 7"
    "attr_name example_adapter = PStr ''Salon''" "attr_hvac_mode example_adapter = HVACMode_HEAT"
    by (simp_all add: example_adapter_def)
  have z: "set_zone ?ok (PStr ''m1'') (PInt 7) False = None"
    "set_zone ?bad (PStr ''m1'') (PInt 7) False = Some (Exception ''offline'')"
    by (simp_all add: example_client_def)
  from async_set_hvac_mode_flag[of ?ok example_adapter "''off''"] s z
  have 1: "api_calls (async_set_hvac_mode ?ok example_adapter ''off'')
             = [Call_set_zone (PStr ''m1'') (PInt 7) False]"
    "raised (async_set_hvac_mode ?ok example_adapter ''off'') = None"
    by simp_all
  from async_set_hvac_mode_flag[of ?ok example_adapter "''heat''"] s
  have 2: "api_calls (async_set_hvac_mode ?ok example_adapter ''heat'')
             = [Call_set_zone (PStr ''m1'') (PInt 7) True]"
    by simp
  from async_set_hvac_mode_flag[of ?ok example_adapter "''auto''"] s
  have 3: "api_calls (async_set_hvac_mode ?ok example_adapter ''auto'')
             = [Call_set_zone (PStr ''m1'') (PInt 7) False]"
    by simp
  from async_set_hvac_mode_flag[of ?bad example_adapter "''off''"] s z
  have 4: "raised (async_set_hvac_mode ?bad example_adapter ''off'') = None"
    "adapter (async_set_hvac_mode ?bad example_adapter ''off'') = example_adapter"
    "logged (async_set_hvac_mode ?bad example_adapter ''off'')
       = [LogError ''Failed to set hvac mode for %s to %s: %s''
            [ArgVal (PStr ''Salon''), ArgStr ''off'', ArgExc (Exception ''offline'')]]"
    by simp_all
  from s z 1 2 3 4 show ?thesis by simp
qed

text \<open>\<^bold>\<open>C8\<close>. When the keyword arguments of \<open>async_set_temperature\<close> hold no
  temperature, or hold None for it, the call does nothing: no request is sent, nothing
  is logged or raised, and the adapter is unchanged.\<close>

theorem async_set_temperature_noop:
  assumes "map_of kwargs ''temperature'' = None \<or> map_of kwargs ''temperature'' = Some PNone"
  shows "async_set_temperature api self kwargs =
     \<lparr>raised = None, adapter = self, api_calls = [], logged = []\<rparr>"
  using assms by (auto simp: async_set_temperature_def kwargs_get_def ATTR_TEMPERATURE_def)

theorem async_set_temperature_noop_witness:
  "map_of ([] :: (string \<times> pyval) list) ''temperature'' = None
 \<and> async_set_temperature (example_client (Inr []) (Inl TypeError) (Some (Exception ''offline'')))
      example_adapter [] =
      \<lparr>raised = None, adapter = example_adapter, api_calls = [], logged = []\<rparr>
 \<and> map_of [(''temperature'', PNone)] ''temperature'' = Some PNone
 \<and> async_set_temperature (example_client (Inr []) (Inl TypeError) (Some (Exception ''offline'')))
      example_adapter [(''temperature'', PNone)] =
      \<lparr>raised = None, adapter = example_adapter, api_calls = [], logged = []\<rparr>"
proof -
  have a: "map_of ([] :: (string \<times> pyval) list) ''temperature'' = None" by simp
  have b: "map_of [(''temperature'', PNone)] ''temperature'' = Some PNone" by simp
  from async_set_temperature_noop[OF disjI1[OF a]] async_set_temperature_noop[OF disjI2[OF b]] a b
  show ?thesis by simp
qed

text \<open>\<^bold>\<open>C9\<close>. When \<open>async_set_temperature\<close> is called with a temperature \<open>v\<close> that is
  not None, it sends exactly one \<open>set_const_temp\<close> request carrying \<open>v\<close> itself (no
  rescaling), and the adapter, its cached target temperature included, is unchanged
  whether the call succeeds or raises; an error raised by the call is logged and does
  not propagate.\<close>

theorem async_set_temperature_forwards:
  assumes "map_of kwargs ''temperature'' = Some v" and "v \<noteq> PNone"
  shows "api_calls (async_set_temperature api self kwargs) =
     [Call_set_const_temp (self_udid self) (self_id self) v]
   \<and> adapter (async_set_temperature api self kwargs) = self
   \<and> attr_target_temperature (adapter (async_set_temperature api self kwargs))
       = attr_target_temperature self
   \<and> (set_const_temp api (self_udid self) (self_id self) v = None \<longrightarrow>
        raised (async_set_temperature api self kwargs) = None \<and>
        logged (async_set_temperature api self kwargs) = [])
   \<and> (\<forall>ex. set_const_temp api (self_udid self) (self_id self) v = Some ex \<and> is_Exception ex \<longrightarrow>
        raised (async_set_temperature api self kwargs) = None \<and>
        logged (async_set_temperature api self kwargs) =
          [LogError ''Failed to set temperature for %s to %s: %s''
             [ArgVal (attr_name self), ArgVal v, ArgExc ex]])"
  using assms
  by (cases "set_const_temp api (self_udid self) (self_id self) v")
     (simp_all add: async_set_temperature_def kwargs_get_def ATTR_TEMPERATURE_def
        except_Exception_def)

theorem async_set_temperature_forwards_witness:
  "map_of [(''temperature'', PFloat 22.5)] ''temperature'' = Some (PFloat 22.5)
 \<and> PFloat 22.5 \<noteq> PNone
 \<and> api_calls (async_set_temperature (example_client (Inr []) (Inl TypeError) None)
      example_adapter [(''temperature'', PFloat 22.5)])
     = [Call_set_const_temp (PStr ''m1'') (PInt 7) (PFloat 22.5)]
 \<and> raised (async_set_temperature (example_client (Inr []) (Inl TypeError) None)
      example_adapter [(''temperature'', PFloat 22.5)]) = None
 \<and> attr_target_temperature (adapter (async_set_temperature
      (example_client (Inr []) (Inl TypeError) None)
      example_adapter [(''temperature'', PFloat 22.5)])) = PFloat 21.5
 \<and> is_Exception (Exception ''offline'')
 \<and> raised (async_set_temperature
      (example_client (Inr []) (Inl TypeError) (Some (Exception ''offline'')))
      example_adapter [(''temperature'', PFloat 22.5)]) = None
 \<and> attr_target_temperature (adapter (async_set_temperature
      (example_client (Inr []) (Inl TypeError) (Some (Exception ''offline'')))
      example_adapter [(''temperature'', PFloat 22.5)])) = PFloat 21.5
 \<and> logged (async_set_temperature
      (example_client (Inr []) (Inl TypeError) (Some (Exception ''offline'')))
      example_adapter [(''temperature'', PFloat 22.5)])
     = [LogError ''Failed to set temperature for %s to %s: %s''
          [ArgVal (PStr ''Salon''), ArgVal (PFloat 22.5), ArgExc (Exception ''offline'')]]"
proof -
  let ?ok = "example_client (Inr []) (Inl TypeError) None"
  let ?bad = "example_client (Inr []) (Inl TypeError) (Some (Exception ''offline''))"
  have k: "map_of [(''temperature'', PFloat 22.5)] ''temperature'' = Some (PFloat 22.5)"
    by simp
  have n: "PFloat 22.5 \<noteq> PNone" by simp
  have s: "self_udid example_adapter = PStr ''m1''" "self_id example_adapter = PInt 7"
    "attr_name example_adapter = PStr ''Salon''"
    "attr_target_temperature example_adapter = PFloat 21.5"
    by (simp_all add: example_adapter_def)
  have z: "set_const_temp ?ok (PStr ''m1'') (PInt 7) (PFloat 22.5) = None"
    "set_const_temp ?bad (PStr ''m1'') (PInt 7) (PFloat 22.5) = Some (Exception ''offline'')"
    by (simp_all add: example_client_def)
  from async_set_temperature_forwards[OF k n, of ?ok example_adapter] s z
  have 1: "api_calls (async_set_temperature ?ok example_adapter [(''temperature'', PFloat 22.5)])
             = [Call_set_const_temp (PStr ''m1'') (PInt 7) (PFloat 22.5)]"
    "raised (async_set_temperature ?ok example_adapter [(''temperature'', PFloat 22.5)]) = None"
    "attr_target_temperature (adapter (async_set_temperature ?ok example_adapter
        [(''temperature'', PFloat 22.5)])) = PFloat 21.5"
    by simp_all
  from async_set_temperature_forwards[OF k n, of ?bad example_adapter] s z
  have 2: "raised (async_set_temperature ?bad example_adapter [(''temperature'', PFloat 22.5)]) = None"
    "attr_target_temperature (adapter (async_set_temperature ?bad example_adapter
        [(''temperature'', PFloat 22.5)])) = PFloat 21.5"
    "logged (async_set_temperature ?bad example_adapter [(''temperature'', PFloat 22.5)])
       = [LogError ''Failed to set temperature for %s to %s: %s''
            [ArgVal (PStr ''Salon''), ArgVal (PFloat 22.5), ArgExc (Exception ''offline'')]]"
    by simp_all
  from k n 1 2 show ?thesis by simp
qed

text \<open>\<^bold>\<open>C10\<close>. There is a snapshot that \<open>get_zone\<close> answers without an error, lacking
  the flags of its zone, on which \<open>update_properties\<close> raises \<open>KeyError\<close> midway;
  \<open>async_update\<close> catches it and raises nothing, yet the adapter is partially
  updated: the name, both temperatures and the humidity hold the values of the new
  snapshot, while the HVAC action and mode keep their previous values (the mode stays
  heat although the snapshot's zone state is not one of the heating states).\<close>

theorem async_update_partial_update:
  "\<exists>api self device.
     get_zone api (self_udid self) (self_id self) = Inr device
   \<and> zone_value device ''flags'' = Inl (KeyError (PStr ''flags''))
   \<and> fst (update_properties self device) = Some (KeyError (PStr ''flags''))
   \<and> raised (async_update api self) = None
   \<and> adapter (async_update api self) =
        self\<lparr>attr_name := PStr ''Hall'', attr_target_temperature := PFloat 23,
             attr_current_temperature := PFloat 20.1, attr_current_humidity := PInt 50\<rparr>
   \<and> attr_name self \<noteq> PStr ''Hall''
   \<and> attr_target_temperature self \<noteq> PFloat 23
   \<and> attr_current_temperature self \<noteq> PFloat 20.1
   \<and> attr_current_humidity self \<noteq> PInt 50
   \<and> attr_hvac_action (adapter (async_update api self)) = attr_hvac_action self
   \<and> attr_hvac_mode (adapter (async_update api self)) = attr_hvac_mode self
   \<and> zone_value device ''zoneState'' = Inr (PStr ''zoneOff'')
   \<and> attr_hvac_mode self = HVACMode_HEAT"
proof -
  let ?device = "PDict [(''description'', PDict [(''name'', PStr ''Hall'')]),
            (''zone'', PDict [(''id'', PInt 7),
                             (''setTemperature'', PInt 230),
                             (''currentTemperature'', PInt 201),
                             (''humidity'', PInt 50),
                             (''zoneState'', PStr ''zoneOff'')])]"
  let ?api = "example_client (Inl (Exception ''unused'')) (Inr ?device) None"
  have u: "update_properties example_adapter ?device =
     (Some (KeyError (PStr ''flags'')),
      example_adapter\<lparr>attr_name := PStr ''Hall'', attr_target_temperature := PFloat 23,
             attr_current_temperature := PFloat 20.1, attr_current_humidity := PInt 50\<rparr>)"
    by (simp add: step_defs)
  have g: "get_zone ?api (self_udid example_adapter) (self_id example_adapter) = Inr ?device"
    by (simp add: example_client_def)
  have a: "async_update ?api example_adapter =
     \<lparr>raised = None,
      adapter = example_adapter\<lparr>attr_name := PStr ''Hall'', attr_target_temperature := PFloat 23,
             attr_current_temperature := PFloat 20.1, attr_current_humidity := PInt 50\<rparr>,
      api_calls = [Call_get_zone (PStr ''m1'') (PInt 7)],
      logged = [LogError ''Failed to update Tech zone %s: %s''
                  [ArgVal (PStr ''Hall''), ArgExc (KeyError (PStr ''flags''))]]\<rparr>"
    unfolding async_update_def g
    by (simp add: u except_Exception_def) (simp add: example_adapter_def)
  have z: "zone_value ?device ''flags'' = Inl (KeyError (PStr ''flags''))"
     "zone_value ?device ''zoneState'' = Inr (PStr ''zoneOff'')"
    by (simp_all add: zone_value_def)
  have p: "attr_name example_adapter \<noteq> PStr ''Hall''"
    "attr_target_temperature example_adapter \<noteq> PFloat 23"
    "attr_current_temperature example_adapter \<noteq> PFloat 20.1"
    "attr_current_humidity example_adapter \<noteq> PInt 50"
    "attr_hvac_mode example_adapter = HVACMode_HEAT"
    by (simp_all add: example_adapter_def)
  show ?thesis
    apply (rule exI[of _ ?api], rule exI[of _ example_adapter], rule exI[of _ ?device])
    apply (simp add: g a u z p)
    done
qed


end
